theory Spec2Isabelle
  imports Main "HOL-Library.Multiset"
begin

section \<open>Documents and the clean-up step of the set-up cell\<close>

text \<open>
  The long-text extraction notebook loads one HTML page as a document and normalises
  its text with \<^verbatim>\<open>re.sub("\n\n+", "\n", document.page_content)\<close>. A document is
  the library's wrapper of a text and its metadata.
\<close>

record Document =
  page_content :: string
  metadata :: "(string \<times> string) list"

definition newline :: char where
  "newline = CHR 0x0A"

text \<open>
  \<^verbatim>\<open>re.sub\<close> scans from the left. Where the pattern matches (two newlines, then as
  many more as follow, the quantifier being greedy) the whole match is replaced by one
  newline and the scan goes on behind it; elsewhere the character is copied.
\<close>

function re_sub_newlines :: "string \<Rightarrow> string" where
  "re_sub_newlines [] = []"
| "re_sub_newlines [c] = [c]"
| "re_sub_newlines (c # d # cs) =
     (if c = newline \<and> d = newline
      then newline # re_sub_newlines (dropWhile (\<lambda>x. x = newline) cs)
      else c # re_sub_newlines (d # cs))"
  by pat_completeness auto
termination
  by (relation "measure length") (auto simp: less_Suc_eq_le length_dropWhile_le le_SucI)

text \<open>The property the clean-up is after: no two newlines in a row.\<close>

fun no_blank_line :: "string \<Rightarrow> bool" where
  "no_blank_line [] = True"
| "no_blank_line [c] = True"
| "no_blank_line (c # d # cs) = ((c \<noteq> newline \<or> d \<noteq> newline) \<and> no_blank_line (d # cs))"

text \<open>
  The comment of the cell, taken at its word: every run of consecutive newlines is
  replaced with a single newline, that is, a newline followed by a newline is dropped.
\<close>

fun collapse_newline_runs :: "string \<Rightarrow> string" where
  "collapse_newline_runs [] = []"
| "collapse_newline_runs [c] = [c]"
| "collapse_newline_runs (c # d # cs) =
     (if c = newline \<and> d = newline then collapse_newline_runs (d # cs)
      else c # collapse_newline_runs (d # cs))"

section \<open>Python exceptions\<close>

text \<open>
  The built-in hierarchy as far as the notebooks meet it: \<^verbatim>\<open>KeyboardInterrupt\<close>,
  \<^verbatim>\<open>SystemExit\<close>, \<^verbatim>\<open>GeneratorExit\<close> and \<^verbatim>\<open>asyncio.CancelledError\<close> derive from
  \<^verbatim>\<open>BaseException\<close> only; every other class here derives from \<^verbatim>\<open>Exception\<close>. An
  exception value carries its class and the text that \<^verbatim>\<open>str(e)\<close> gives.
\<close>

datatype exc_type =
    KeyboardInterrupt | SystemExit | GeneratorExit | CancelledError
  | IndexError | KeyError | TimeoutError | OtherException string

datatype py_exception = PyExc (exc_class: exc_type) (str_of: string)

fun subclass_of_Exception :: "exc_type \<Rightarrow> bool" where
  "subclass_of_Exception KeyboardInterrupt = False"
| "subclass_of_Exception SystemExit = False"
| "subclass_of_Exception GeneratorExit = False"
| "subclass_of_Exception CancelledError = False"
| "subclass_of_Exception _ = True"

definition isinstance_Exception :: "py_exception \<Rightarrow> bool" where
  "isinstance_Exception e = subclass_of_Exception (exc_class e)"

section \<open>Loading the document\<close>

text \<open>
  \<^verbatim>\<open>document = loader.load()[0]\<close>, then the clean-up. The argument is what
  \<^verbatim>\<open>loader.load()\<close> gave: a list of documents, or the exception it raised. Indexing an
  empty list raises \<^verbatim>\<open>IndexError\<close>.
\<close>

definition list_index_error :: py_exception where
  "list_index_error = PyExc IndexError ''list index out of range''"

definition load_document :: "py_exception + Document list \<Rightarrow> py_exception + Document" where
  "load_document loaded =
     (case loaded of
        Inl e \<Rightarrow> Inl e
      | Inr docs \<Rightarrow>
          (case docs of
             [] \<Rightarrow> Inl list_index_error
           | document # _ \<Rightarrow>
               Inr (document\<lparr>page_content := re_sub_newlines (page_content document)\<rparr>)))"

section \<open>The extraction schema\<close>

record KeyDevelopment =
  year :: int
  description :: string
  evidence :: string

record ExtractionData =
  key_developments :: "KeyDevelopment list"

text \<open>
  The two class bodies as the schema library reads them: one entry per annotated
  attribute, with its annotation, whether it is required (\<^verbatim>\<open>Field(...)\<close>, or no default
  at all) and the description given to the model.
\<close>

datatype annotation = PyInt | PyStr | PyList annotation | PyModel string

record field_info =
  field_name :: string
  field_type :: annotation
  field_required :: bool
  field_description :: "string option"

definition KeyDevelopment_fields :: "field_info list" where
  "KeyDevelopment_fields =
     [\<lparr>field_name = ''year'', field_type = PyInt, field_required = True,
       field_description = Some ''The year when there was an important historic development.''\<rparr>,
      \<lparr>field_name = ''description'', field_type = PyStr, field_required = True,
       field_description = Some ''What happened in this year? What was the development?''\<rparr>,
      \<lparr>field_name = ''evidence'', field_type = PyStr, field_required = True,
       field_description = Some ''Repeat in verbatim the sentence(s) from which the year and description information were extracted''\<rparr>]"

definition ExtractionData_fields :: "field_info list" where
  "ExtractionData_fields =
     [\<lparr>field_name = ''key_developments'', field_type = PyList (PyModel ''KeyDevelopment''),
       field_required = True, field_description = None\<rparr>]"

section \<open>The prompt and the extractor chain\<close>

text \<open>
  The input of a chain is a Python dict from names to strings, kept as an association
  list; a formatted prompt is a list of messages, each a role and a text. The prompt has
  one slot, \<^verbatim>\<open>{text}\<close>, which is the whole human message; a dict without that key
  raises \<^verbatim>\<open>KeyError\<close>.
\<close>

type_synonym chain_input = "(string \<times> string) list"

type_synonym messages = "(string \<times> string) list"

definition system_message :: string where
  "system_message =
     ''You are an expert at identifying key historic development in text. '' @
     ''Only extract important historic developments. Extract nothing if no important information can be found in the text.''"

definition prompt :: "chain_input \<Rightarrow> py_exception + messages" where
  "prompt inp =
     (case map_of inp ''text'' of
        None \<Rightarrow> Inl (PyExc KeyError ''text'')
      | Some text \<Rightarrow> Inr [(''system'', system_message), (''human'', text)])"

text \<open>
  \<^verbatim>\<open>extractor = prompt | llm.with_structured_output(schema=ExtractionData)\<close>. The
  model with structured output is a remote service: it is a parameter, from messages to
  an extraction or the exception raised.
\<close>

type_synonym structured_llm = "messages \<Rightarrow> py_exception + ExtractionData"

definition extractor :: "structured_llm \<Rightarrow> chain_input \<Rightarrow> py_exception + ExtractionData" where
  "extractor llm inp = (case prompt inp of Inl e \<Rightarrow> Inl e | Inr msgs \<Rightarrow> llm msgs)"

section \<open>Brute force: chunk, extract, merge\<close>

text \<open>
  \<^verbatim>\<open>texts\<close> is the list the token splitter returned. The cell keeps
  \<^verbatim>\<open>texts[:3]\<close> and hands \<^verbatim>\<open>[{"text": text} for text in first_few]\<close> to
  \<^verbatim>\<open>extractor.batch\<close>, with the configuration \<^verbatim>\<open>{"max_concurrency": 5}\<close>.
\<close>

definition first_few :: "string list \<Rightarrow> string list" where
  "first_few texts = take 3 texts"

definition batch_inputs :: "string list \<Rightarrow> chain_input list" where
  "batch_inputs chunks = map (\<lambda>text. [(''text'', text)]) chunks"

definition batch_config :: "(string \<times> nat) list" where
  "batch_config = [(''max_concurrency'', 5)]"

text \<open>
  Modelled from the spec: \<^verbatim>\<open>Runnable.batch\<close> of the orchestration library, which is
  not among the notebooks. It runs the chain once per input and returns the outputs in
  the order of the inputs; the first input whose run raises makes the call raise. The
  configuration bounds how many runs are in flight, not what is returned.
\<close>

fun batch :: "('i \<Rightarrow> py_exception + 'o) \<Rightarrow> 'i list \<Rightarrow> (string \<times> nat) list \<Rightarrow> py_exception + 'o list" where
  "batch chain [] config = Inr []"
| "batch chain (inp # inps) config =
     (case chain inp of
        Inl e \<Rightarrow> Inl e
      | Inr out \<Rightarrow>
          (case batch chain inps config of Inl e \<Rightarrow> Inl e | Inr outs \<Rightarrow> Inr (out # outs)))"

definition extractions :: "structured_llm \<Rightarrow> string list \<Rightarrow> py_exception + ExtractionData list" where
  "extractions llm texts = batch (extractor llm) (batch_inputs (first_few texts)) batch_config"

text \<open>
  The merge cell: \<^verbatim>\<open>key_developments = []\<close>, then
  \<^verbatim>\<open>key_developments.extend(extraction.key_developments)\<close> for each extraction in turn.
\<close>

fun merge_loop :: "ExtractionData list \<Rightarrow> KeyDevelopment list \<Rightarrow> KeyDevelopment list" where
  "merge_loop [] acc = acc"
| "merge_loop (extraction # rest) acc = merge_loop rest (acc @ key_developments extraction)"

definition merge_results :: "ExtractionData list \<Rightarrow> KeyDevelopment list" where
  "merge_results exts = merge_loop exts []"

section \<open>The retrieval-augmented extractor\<close>

text \<open>
  The vector store is built and queried by a library: it is a parameter, from a query
  and the number \<open>k\<close> of neighbours asked for to the documents found, best first, or
  the exception raised. The retriever is the store asked with
  \<^verbatim>\<open>search_kwargs={"k": 1}\<close>.
\<close>

type_synonym vectorstore = "string \<Rightarrow> nat \<Rightarrow> py_exception + Document list"

definition retriever :: "vectorstore \<Rightarrow> string \<Rightarrow> py_exception + Document list" where
  "retriever store query = store query 1"

text \<open>\<^verbatim>\<open>lambda docs: docs[0].page_content\<close>\<close>

definition top_doc_content :: "Document list \<Rightarrow> py_exception + string" where
  "top_doc_content docs =
     (case docs of [] \<Rightarrow> Inl list_index_error | doc # _ \<Rightarrow> Inr (page_content doc))"

text \<open>
  \<^verbatim>\<open>rag_extractor = {"text": retriever | (lambda ...)} | extractor\<close>: the dict step
  builds the extractor's input from the query, the extractor runs on it.
\<close>

definition rag_input :: "vectorstore \<Rightarrow> string \<Rightarrow> py_exception + chain_input" where
  "rag_input store query =
     (case retriever store query of
        Inl e \<Rightarrow> Inl e
      | Inr docs \<Rightarrow>
          (case top_doc_content docs of Inl e \<Rightarrow> Inl e | Inr text \<Rightarrow> Inr [(''text'', text)]))"

definition rag_extractor :: "vectorstore \<Rightarrow> structured_llm \<Rightarrow> string \<Rightarrow> py_exception + ExtractionData" where
  "rag_extractor store llm query =
     (case rag_input store query of Inl e \<Rightarrow> Inl e | Inr inp \<Rightarrow> extractor llm inp)"

section \<open>The RunPod notebook: four guarded invocations\<close>

text \<open>
  The client object is a remote service: each of its four methods is a parameter. A call
  returns the text or the exception raised; a stream yields chunks and then either ends
  or raises. The notebook state is what has been written to standard output and how
  many times a method of the client has been called.
\<close>

record RunPod =
  invoke :: "string \<Rightarrow> py_exception + string"
  stream :: "string \<Rightarrow> string list \<times> py_exception option"
  ainvoke :: "string \<Rightarrow> py_exception + string"
  astream :: "string \<Rightarrow> string list \<times> py_exception option"

record notebook =
  stdout :: string
  llm_calls :: nat

text \<open>\<^verbatim>\<open>print(x)\<close> writes the text and a newline, \<^verbatim>\<open>print(x, end="")\<close> the text only.\<close>

definition py_write :: "string \<Rightarrow> notebook \<Rightarrow> notebook" where
  "py_write text nb = nb\<lparr>stdout := stdout nb @ text\<rparr>"

definition py_print :: "string \<Rightarrow> notebook \<Rightarrow> notebook" where
  "py_print text nb = py_write (text @ [newline]) nb"

definition called :: "notebook \<Rightarrow> notebook" where
  "called nb = nb\<lparr>llm_calls := Suc (llm_calls nb)\<rparr>"

definition runpod_prompt :: string where
  "runpod_prompt = ''Write a tagline for an ice cream shop on the moon.''"

text \<open>
  A cell returns the state it leaves and the exception that leaves the cell, if any.
  \<^verbatim>\<open>except Exception as e\<close> handles instances of \<^verbatim>\<open>Exception\<close>; any other
  exception goes on.
\<close>

type_synonym cell_result = "notebook \<times> py_exception option"

definition except_Exception :: "(py_exception \<Rightarrow> string) \<Rightarrow> py_exception \<Rightarrow> notebook \<Rightarrow> cell_result" where
  "except_Exception diagnostic e nb =
     (if isinstance_Exception e then (py_print (diagnostic e) nb, None) else (nb, Some e))"

definition invoke_diagnostic :: "py_exception \<Rightarrow> string" where
  "invoke_diagnostic e =
     ''Error invoking LLM: '' @ str_of e @
     ''. Ensure endpoint ID/API key are correct and endpoint is active/compatible.''"

definition stream_diagnostic :: "py_exception \<Rightarrow> string" where
  "stream_diagnostic e =
     [newline] @ ''Error streaming LLM: '' @ str_of e @
     ''. Ensure endpoint handler supports streaming output format.''"

definition ainvoke_diagnostic :: "py_exception \<Rightarrow> string" where
  "ainvoke_diagnostic e = ''Error invoking LLM asynchronously: '' @ str_of e @ ''.''"

definition astream_diagnostic :: "py_exception \<Rightarrow> string" where
  "astream_diagnostic e =
     [newline] @ ''Error streaming LLM asynchronously: '' @ str_of e @
     ''. Ensure endpoint handler supports streaming output format.''"

definition sync_invoke_cell :: "RunPod \<Rightarrow> notebook \<Rightarrow> cell_result" where
  "sync_invoke_cell llm nb =
     (case invoke llm runpod_prompt of
        Inr response \<Rightarrow>
          (py_print response (py_print ''--- Sync Invoke Response ---'' (called nb)), None)
      | Inl e \<Rightarrow> except_Exception invoke_diagnostic e (called nb))"

text \<open>The loop over a stream prints each chunk as it comes.\<close>

definition print_chunks :: "string list \<Rightarrow> notebook \<Rightarrow> notebook" where
  "print_chunks chunks nb = fold py_write chunks nb"

definition sync_stream_cell :: "RunPod \<Rightarrow> notebook \<Rightarrow> cell_result" where
  "sync_stream_cell llm nb =
     (let nb1 = py_print ([newline] @ ''--- Sync Stream Response ---'') nb in
      case stream llm runpod_prompt of
        (chunks, None) \<Rightarrow> (py_print [] (print_chunks chunks (called nb1)), None)
      | (chunks, Some e) \<Rightarrow> except_Exception stream_diagnostic e (print_chunks chunks (called nb1)))"

definition async_invoke_cell :: "RunPod \<Rightarrow> notebook \<Rightarrow> cell_result" where
  "async_invoke_cell llm nb =
     (case ainvoke llm runpod_prompt of
        Inr async_response \<Rightarrow>
          (py_print async_response (py_print ''--- Async Invoke Response ---'' (called nb)), None)
      | Inl e \<Rightarrow> except_Exception ainvoke_diagnostic e (called nb))"

definition async_stream_cell :: "RunPod \<Rightarrow> notebook \<Rightarrow> cell_result" where
  "async_stream_cell llm nb =
     (let nb1 = py_print ([newline] @ ''--- Async Stream Response ---'') nb in
      case astream llm runpod_prompt of
        (chunks, None) \<Rightarrow> (py_print [] (print_chunks chunks (called nb1)), None)
      | (chunks, Some e) \<Rightarrow> except_Exception astream_diagnostic e (print_chunks chunks (called nb1)))"

text \<open>
  The chaining cell: \<^verbatim>\<open>chain = prompt_template | llm | parser\<close>, run once with
  \<^verbatim>\<open>invoke\<close> and once with \<^verbatim>\<open>ainvoke\<close>, each in its own
  \<^verbatim>\<open>try\<close>. The parser returns the text of the model as it is.
\<close>

definition prompt_template :: "chain_input \<Rightarrow> py_exception + string" where
  "prompt_template inp =
     (case map_of inp ''topic'' of
        None \<Rightarrow> Inl (PyExc KeyError ''topic'')
      | Some topic \<Rightarrow> Inr (''Tell me a joke about '' @ topic))"

definition chain_invoke :: "RunPod \<Rightarrow> chain_input \<Rightarrow> py_exception + string" where
  "chain_invoke llm inp =
     (case prompt_template inp of Inl e \<Rightarrow> Inl e | Inr text \<Rightarrow> invoke llm text)"

definition chain_ainvoke :: "RunPod \<Rightarrow> chain_input \<Rightarrow> py_exception + string" where
  "chain_ainvoke llm inp =
     (case prompt_template inp of Inl e \<Rightarrow> Inl e | Inr text \<Rightarrow> ainvoke llm text)"

definition chain_diagnostic :: "py_exception \<Rightarrow> string" where
  "chain_diagnostic e = ''Error running chain: '' @ str_of e"

definition async_chain_diagnostic :: "py_exception \<Rightarrow> string" where
  "async_chain_diagnostic e = ''Error running async chain: '' @ str_of e"

definition sync_chain_try :: "RunPod \<Rightarrow> notebook \<Rightarrow> cell_result" where
  "sync_chain_try llm nb =
     (case chain_invoke llm [(''topic'', ''bears'')] of
        Inr chain_response \<Rightarrow>
          (py_print chain_response (py_print ''--- Chain Response ---'' (called nb)), None)
      | Inl e \<Rightarrow> except_Exception chain_diagnostic e (called nb))"

definition async_chain_try :: "RunPod \<Rightarrow> notebook \<Rightarrow> cell_result" where
  "async_chain_try llm nb =
     (case chain_ainvoke llm [(''topic'', ''robots'')] of
        Inr async_chain_response \<Rightarrow>
          (py_print async_chain_response
             (py_print ''--- Async Chain Response ---'' (called nb)), None)
      | Inl e \<Rightarrow> except_Exception async_chain_diagnostic e (called nb))"

definition chain_cell :: "RunPod \<Rightarrow> notebook \<Rightarrow> cell_result" where
  "chain_cell llm nb =
     (case sync_chain_try llm nb of
        (nb1, Some e) \<Rightarrow> (nb1, Some e)
      | (nb1, None) \<Rightarrow> async_chain_try llm nb1)"

section \<open>The RunPod client's polling loop\<close>

text \<open>
  Modelled from the spec: the stream method of the RunPod client, which belongs to the
  \<^verbatim>\<open>langchain_runpod\<close> package and is not among the notebooks. The spec describes a
  polling-based simulated stream, a retry/poll loop over a remote endpoint polled for
  job status and streamed chunks; the notebook names its two settings,
  \<^verbatim>\<open>poll_interval\<close> and \<^verbatim>\<open>max_polling_attempts\<close>. The endpoint is a parameter: its
  answer to the poll of a given number for a given prompt, which says whether the job
  has reached a final status and brings the chunks produced since. Each poll yields the
  chunks it brought; the loop ends when the job is finished or when the attempts are
  used up. The poll interval is the pause between two polls: it decides when a poll is
  made, not whether.
\<close>

record poll_response =
  finished :: bool
  stream_chunks :: "string list"

record polling =
  poll_interval :: nat
  max_polling_attempts :: nat

record stream_run =
  polls :: nat
  yielded :: "string list"
  completed :: bool

function poll_loop :: "(nat \<Rightarrow> poll_response) \<Rightarrow> polling \<Rightarrow> nat \<Rightarrow> string list \<Rightarrow> stream_run" where
  "poll_loop endpoint cfg attempt acc =
     (if attempt < max_polling_attempts cfg then
        (let response = endpoint attempt; acc' = acc @ stream_chunks response in
         if finished response
         then \<lparr>polls = Suc attempt, yielded = acc', completed = True\<rparr>
         else poll_loop endpoint cfg (Suc attempt) acc')
      else \<lparr>polls = attempt, yielded = acc, completed = False\<rparr>)"
  by pat_completeness auto
termination
  by (relation "measure (\<lambda>(endpoint, cfg, attempt, acc). max_polling_attempts cfg - attempt)") auto

declare poll_loop.simps [simp del]

definition runpod_stream :: "(string \<Rightarrow> nat \<Rightarrow> poll_response) \<Rightarrow> polling \<Rightarrow> string \<Rightarrow> stream_run" where
  "runpod_stream endpoint cfg prompt_text = poll_loop (endpoint prompt_text) cfg 0 []"

section \<open>Sample services\<close>

text \<open>Concrete stand-ins for the remote services, to run the definitions on.\<close>

definition doc_of :: "string \<Rightarrow> Document" where
  "doc_of text = \<lparr>page_content = text, metadata = []\<rparr>"

definition store_of :: "Document list \<Rightarrow> vectorstore" where
  "store_of docs = (\<lambda>query k. Inr (take k docs))"

definition finds_nothing :: structured_llm where
  "finds_nothing = (\<lambda>msgs. Inr \<lparr>key_developments = []\<rparr>)"

definition raising_llm :: "py_exception \<Rightarrow> RunPod" where
  "raising_llm e =
     \<lparr>invoke = (\<lambda>p. Inl e), stream = (\<lambda>p. ([''Moon''], Some e)),
      ainvoke = (\<lambda>p. Inl e), astream = (\<lambda>p. ([''Moon''], Some e))\<rparr>"

definition fresh_notebook :: notebook where
  "fresh_notebook = \<lparr>stdout = [], llm_calls = 0\<rparr>"

definition first_extraction :: ExtractionData where
  "first_extraction =
     \<lparr>key_developments = [\<lparr>year = 1769, description = ''steam'', evidence = ''Cugnot''\<rparr>]\<rparr>"

definition second_extraction :: ExtractionData where
  "second_extraction =
     \<lparr>key_developments =
        [\<lparr>year = 1886, description = ''patent'', evidence = ''Benz''\<rparr>,
         \<lparr>year = 1908, description = ''Model T'', evidence = ''Ford''\<rparr>]\<rparr>"

section \<open>Brute force: which chunks are extracted\<close>

lemma batch_Inr:
  "batch chain inps config = Inr outs \<Longrightarrow>
   length outs = length inps \<and> (\<forall>i<length inps. chain (inps ! i) = Inr (outs ! i))"
proof (induction inps arbitrary: outs)
  case Nil
  then show ?case by simp
next
  case (Cons inp inps)
  from Cons.prems obtain out rest where
    h: "chain inp = Inr out" "batch chain inps config = Inr rest" "outs = out # rest"
    by (auto split: sum.splits)
  from Cons.IH [OF h(2)] h(1,3) show ?case
    by (auto simp: nth_Cons split: nat.splits)
qed

text \<open>
  C1, as amended. The extractor is run on the first three chunks the splitter returned,
  one input \<^verbatim>\<open>{"text": chunk}\<close> per chunk and in their order; when the batch call
  returns, it returns one extraction per such chunk, the extraction of the chunk at the
  same position. Every chunk is extracted only when the splitter returned at most three.
\<close>

theorem extractions_cover_first_three:
  "batch_inputs (first_few texts) = map (\<lambda>text. [(''text'', text)]) (take 3 texts)
   \<and> (extractions llm texts = Inr exts \<longrightarrow>
        length exts = min 3 (length texts)
        \<and> (\<forall>i<length exts. extractor llm [(''text'', texts ! i)] = Inr (exts ! i)))
   \<and> (length texts \<le> 3 \<longrightarrow>
        (\<forall>text\<in>set texts. [(''text'', text)] \<in> set (batch_inputs (first_few texts))))"
proof (intro conjI impI)
  show "batch_inputs (first_few texts) = map (\<lambda>text. [(''text'', text)]) (take 3 texts)"
    by (simp add: batch_inputs_def first_few_def)
next
  assume "extractions llm texts = Inr exts"
  then have b: "batch (extractor llm) (batch_inputs (first_few texts)) batch_config = Inr exts"
    by (simp add: extractions_def)
  have len: "length (batch_inputs (first_few texts)) = min 3 (length texts)"
    by (simp add: batch_inputs_def first_few_def min.commute)
  from batch_Inr [OF b] len show "length exts = min 3 (length texts)" by simp
  show "\<forall>i<length exts. extractor llm [(''text'', texts ! i)] = Inr (exts ! i)"
  proof (intro allI impI)
    fix i assume i: "i < length exts"
    with batch_Inr [OF b] len have i3: "i < min 3 (length texts)" by simp
    then have "batch_inputs (first_few texts) ! i = [(''text'', texts ! i)]"
      by (simp add: batch_inputs_def first_few_def)
    with batch_Inr [OF b] i3 len show "extractor llm [(''text'', texts ! i)] = Inr (exts ! i)"
      by metis
  qed
next
  assume "length texts \<le> 3"
  then show "\<forall>text\<in>set texts. [(''text'', text)] \<in> set (batch_inputs (first_few texts))"
    by (simp add: batch_inputs_def first_few_def)
qed

theorem extractions_cover_first_three_witness:
  "extractions finds_nothing [''a'', ''b''] = Inr [\<lparr>key_developments = []\<rparr>, \<lparr>key_developments = []\<rparr>]
   \<and> length [''a'', ''b''] \<le> (3::nat)
   \<and> extractor finds_nothing [(''text'', ''b'')] = Inr \<lparr>key_developments = []\<rparr>
   \<and> [(''text'', ''b'')] \<in> set (batch_inputs (first_few [''a'', ''b'']))"
  using extractions_cover_first_three [of "[''a'', ''b'']" finds_nothing
      "[\<lparr>key_developments = []\<rparr>, \<lparr>key_developments = []\<rparr>]"]
  by (simp add: extractions_def batch_inputs_def first_few_def extractor_def prompt_def finds_nothing_def)

text \<open>
  C1 as stated fails: of four chunks the fourth is in the splitter's list and is
  not among the inputs of the extractor.
\<close>

theorem fourth_chunk_not_extracted:
  "''d'' \<in> set [''a'', ''b'', ''c'', ''d'']
   \<and> [(''text'', ''d'')] \<notin> set (batch_inputs (first_few [''a'', ''b'', ''c'', ''d'']))"
  by (simp add: batch_inputs_def first_few_def)

section \<open>The merge loop\<close>

lemma merge_loop_concat: "merge_loop exts acc = acc @ concat (map key_developments exts)"
  by (induction exts arbitrary: acc) auto

lemma merge_results_is_concat: "merge_results exts = concat (map key_developments exts)"
  by (simp add: merge_results_def merge_loop_concat)

lemma merge_results_nth:
  assumes "i < length exts" "k < length (key_developments (exts ! i))"
  shows "merge_results exts ! (length (merge_results (take i exts)) + k) = key_developments (exts ! i) ! k"
proof -
  have "exts = take i exts @ exts ! i # drop (Suc i) exts"
    using assms(1) by (simp add: id_take_nth_drop)
  then have "merge_results exts =
      merge_results (take i exts) @ key_developments (exts ! i) @ merge_results (drop (Suc i) exts)"
    by (metis (no_types) merge_results_is_concat concat.simps(2) concat_append list.simps(9) map_append)
  then show ?thesis using assms(2) by (simp add: nth_append)
qed

text \<open>
  C2. The merged list is the concatenation, in order, of the extractions' lists: as a
  multiset it is the sum of theirs (nothing added, dropped or repeated), and the
  \<open>k\<close>-th development of extraction \<open>i\<close> stands at position \<open>k\<close> behind everything
  merged from the extractions before \<open>i\<close>.
\<close>

theorem merge_results_concatenates:
  "merge_results exts = concat (map key_developments exts)
   \<and> mset (merge_results exts) = (\<Sum>e\<leftarrow>exts. mset (key_developments e))
   \<and> (i < length exts \<and> k < length (key_developments (exts ! i)) \<longrightarrow>
        merge_results exts ! (length (merge_results (take i exts)) + k)
          = key_developments (exts ! i) ! k)"
  using merge_results_nth [of i exts k]
  by (simp add: merge_results_is_concat mset_concat comp_def)

theorem merge_results_concatenates_witness:
  "(1::nat) < length [first_extraction, second_extraction]
   \<and> (1::nat) < length (key_developments ([first_extraction, second_extraction] ! 1))
   \<and> merge_results [first_extraction, second_extraction] ! 2
       = \<lparr>year = 1908, description = ''Model T'', evidence = ''Ford''\<rparr>
   \<and> merge_results [first_extraction, second_extraction]
       = [\<lparr>year = 1769, description = ''steam'', evidence = ''Cugnot''\<rparr>,
          \<lparr>year = 1886, description = ''patent'', evidence = ''Benz''\<rparr>,
          \<lparr>year = 1908, description = ''Model T'', evidence = ''Ford''\<rparr>]"
  using merge_results_concatenates [of "[first_extraction, second_extraction]" 1 1]
  by (simp add: first_extraction_def second_extraction_def)

section \<open>The retrieval-augmented extractor: what reaches the extractor\<close>

text \<open>
  C3. The retriever asks the store for one neighbour (\<open>k = 1\<close>). The extractor chain
  is handed an input exactly when that search returned a document, and the input is then
  \<^verbatim>\<open>{"text": ...}\<close> with the page content of the first document returned and nothing
  else; the whole chain is the extractor run on that input.
\<close>

theorem rag_input_is_top_chunk:
  "(rag_input store query = Inr inp \<longleftrightarrow>
      (\<exists>doc rest. store query 1 = Inr (doc # rest) \<and> inp = [(''text'', page_content doc)]))
   \<and> (store query 1 = Inr (doc # rest) \<longrightarrow>
        rag_extractor store llm query = extractor llm [(''text'', page_content doc)])"
  by (auto simp: rag_input_def rag_extractor_def retriever_def top_doc_content_def
      split: sum.splits list.splits)

theorem rag_input_is_top_chunk_witness:
  "store_of [doc_of ''engines'', doc_of ''wheels''] ''cars'' 1 = Inr [doc_of ''engines'']
   \<and> rag_input (store_of [doc_of ''engines'', doc_of ''wheels'']) ''cars'' = Inr [(''text'', ''engines'')]
   \<and> rag_extractor (store_of [doc_of ''engines'', doc_of ''wheels'']) finds_nothing ''cars''
       = extractor finds_nothing [(''text'', ''engines'')]"
  using rag_input_is_top_chunk [of "store_of [doc_of ''engines'', doc_of ''wheels'']" "''cars''"
      "[(''text'', ''engines'')]" "doc_of ''engines''" "[]" finds_nothing]
  by (simp add: store_of_def doc_of_def)

text \<open>
  C10. The query reaches the extractor only through retrieval: two queries whose
  retrieval returns the same top document hand the extractor the same input, the
  \<^verbatim>\<open>{text}\<close> slot holds that document's content, and the model behind the prompt
  receives the same two messages for both.
\<close>

theorem rag_query_only_through_retrieval:
  assumes "retriever store q1 = Inr (doc # rest1)" and "retriever store q2 = Inr (doc # rest2)"
  shows "rag_input store q1 = rag_input store q2
     \<and> rag_input store q1 = Inr [(''text'', page_content doc)]
     \<and> rag_extractor store llm q1 = llm [(''system'', system_message), (''human'', page_content doc)]
     \<and> rag_extractor store llm q2 = llm [(''system'', system_message), (''human'', page_content doc)]"
  using assms by (simp add: rag_input_def rag_extractor_def top_doc_content_def extractor_def prompt_def)

theorem rag_query_only_through_retrieval_witness:
  "retriever (store_of [doc_of ''engines'']) ''cars'' = Inr [doc_of ''engines'']
   \<and> retriever (store_of [doc_of ''engines'']) ''boats'' = Inr [doc_of ''engines'']
   \<and> rag_input (store_of [doc_of ''engines'']) ''cars'' = rag_input (store_of [doc_of ''engines'']) ''boats''
   \<and> rag_input (store_of [doc_of ''engines'']) ''cars'' = Inr [(''text'', ''engines'')]"
proof -
  have a: "retriever (store_of [doc_of ''engines'']) ''cars'' = Inr (doc_of ''engines'' # [])"
    by (simp add: retriever_def store_of_def)
  have b: "retriever (store_of [doc_of ''engines'']) ''boats'' = Inr (doc_of ''engines'' # [])"
    by (simp add: retriever_def store_of_def)
  from rag_query_only_through_retrieval [OF a b, of finds_nothing] a b show ?thesis
    by (auto simp: doc_of_def)
qed

text \<open>
  C8. Both indexings are unguarded. When the loader returns at least one document the
  set-up cell yields the first one, cleaned up, and when the retriever returns at least
  one document the chain is the extractor on the first one's content: no index error.
  On an empty list each raises \<^verbatim>\<open>IndexError\<close>; the chain then fails with it
  and returns no extraction, not an empty one.
\<close>

theorem unguarded_indexing:
  "(loaded = Inr (document # others) \<longrightarrow>
      load_document loaded = Inr (document\<lparr>page_content := re_sub_newlines (page_content document)\<rparr>))
   \<and> (retriever store query = Inr (doc # rest) \<longrightarrow>
        rag_extractor store llm query = extractor llm [(''text'', page_content doc)])
   \<and> load_document (Inr []) = Inl list_index_error
   \<and> (retriever store query = Inr [] \<longrightarrow> rag_extractor store llm query = Inl list_index_error)"
  by (simp add: load_document_def rag_extractor_def rag_input_def top_doc_content_def)

theorem unguarded_indexing_witness:
  "load_document (Inr [doc_of [CHR ''a'', newline, newline, CHR ''b'']]) = Inr (doc_of [CHR ''a'', newline, CHR ''b''])
   \<and> retriever (store_of [doc_of ''engines'']) ''cars'' = Inr [doc_of ''engines'']
   \<and> rag_extractor (store_of [doc_of ''engines'']) finds_nothing ''cars'' = Inr \<lparr>key_developments = []\<rparr>
   \<and> retriever (store_of []) ''cars'' = Inr []
   \<and> rag_extractor (store_of []) finds_nothing ''cars'' = Inl list_index_error"
proof -
  have a: "retriever (store_of [doc_of ''engines'']) ''cars'' = Inr (doc_of ''engines'' # [])"
    by (simp add: retriever_def store_of_def)
  have b: "retriever (store_of []) ''cars'' = Inr []"
    by (simp add: retriever_def store_of_def)
  have c: "rag_extractor (store_of []) finds_nothing ''cars'' = Inl list_index_error"
    using unguarded_indexing [of "Inr [doc_of ''x'']" "doc_of ''x''" "[]" "store_of []" "''cars''" _ _ finds_nothing] b
    by simp
  have d: "load_document (Inr [doc_of [CHR ''a'', newline, newline, CHR ''b'']]) = Inr (doc_of [CHR ''a'', newline, CHR ''b''])"
    using unguarded_indexing [of "Inr [doc_of [CHR ''a'', newline, newline, CHR ''b'']]"
         "doc_of [CHR ''a'', newline, newline, CHR ''b'']" "[]"]
    by (simp add: doc_of_def newline_def)
  have e: "rag_extractor (store_of [doc_of ''engines'']) finds_nothing ''cars'' = Inr \<lparr>key_developments = []\<rparr>"
    using unguarded_indexing [of _ _ _ "store_of [doc_of ''engines'']" "''cars''" "doc_of ''engines''" "[]" finds_nothing] a
    by (simp add: extractor_def prompt_def finds_nothing_def)
  from a b c d e show ?thesis by simp
qed

section \<open>The schema\<close>

text \<open>
  C5. \<^verbatim>\<open>KeyDevelopment\<close> declares exactly three fields, all required: an integer
  \<^verbatim>\<open>year\<close>, a string \<^verbatim>\<open>description\<close> and a string \<^verbatim>\<open>evidence\<close>;
  \<^verbatim>\<open>ExtractionData\<close> declares one, the list \<^verbatim>\<open>key_developments\<close> of such
  records. A value of either type is its fields and nothing more.
\<close>

theorem extraction_schema_fields:
  "map (\<lambda>f. (field_name f, field_type f, field_required f)) KeyDevelopment_fields
     = [(''year'', PyInt, True), (''description'', PyStr, True), (''evidence'', PyStr, True)]
   \<and> map (\<lambda>f. (field_name f, field_type f, field_required f)) ExtractionData_fields
     = [(''key_developments'', PyList (PyModel ''KeyDevelopment''), True)]
   \<and> (kd :: KeyDevelopment) = \<lparr>year = year kd, description = description kd, evidence = evidence kd\<rparr>
   \<and> (ed :: ExtractionData) = \<lparr>key_developments = key_developments ed\<rparr>"
  by (simp add: KeyDevelopment_fields_def ExtractionData_fields_def)

section \<open>The polling loop is bounded\<close>

lemma poll_loop_polls:
  "attempt \<le> max_polling_attempts cfg \<Longrightarrow>
   polls (poll_loop endpoint cfg attempt acc) \<le> max_polling_attempts cfg"
proof (induction endpoint cfg attempt acc rule: poll_loop.induct)
  case (1 endpoint cfg attempt acc)
  show ?case
  proof (cases "attempt < max_polling_attempts cfg")
    case True
    then show ?thesis
      using "1.IH" by (subst poll_loop.simps) (auto simp: Let_def)
  next
    case False
    then show ?thesis using "1.prems" by (subst poll_loop.simps) simp
  qed
qed

text \<open>
  C7. Whatever the endpoint answers and whatever the prompt, the stream polls the
  endpoint at most \<^verbatim>\<open>max_polling_attempts\<close> times. The loop is a total function: its
  measure is the number of attempts left.
\<close>

theorem runpod_stream_polls_bounded:
  "polls (runpod_stream endpoint cfg prompt_text) \<le> max_polling_attempts cfg"
  unfolding runpod_stream_def by (rule poll_loop_polls) simp

section \<open>The clean-up step\<close>

lemma no_blank_line_Cons:
  "no_blank_line (x # ys) = ((ys = [] \<or> x \<noteq> newline \<or> hd ys \<noteq> newline) \<and> no_blank_line ys)"
  by (cases ys) auto

lemma re_sub_newlines_Nil_iff: "re_sub_newlines s = [] \<longleftrightarrow> s = []"
  by (induction s rule: re_sub_newlines.induct) auto

lemma hd_re_sub_newlines: "hd (re_sub_newlines s) = hd s"
  by (induction s rule: re_sub_newlines.induct) auto

lemma dropWhile_newline_head:
  "dropWhile (\<lambda>x. x = newline) cs = [] \<or> hd (dropWhile (\<lambda>x. x = newline) cs) \<noteq> newline"
  using hd_dropWhile [of "\<lambda>x. x = newline" cs] by blast

lemma no_blank_line_re_sub: "no_blank_line (re_sub_newlines s)"
proof (induction s rule: re_sub_newlines.induct)
  case (3 c d cs)
  show ?case
  proof (cases "c = newline \<and> d = newline")
    case True
    with 3 have ih: "no_blank_line (re_sub_newlines (dropWhile (\<lambda>x. x = newline) cs))" by simp
    from True ih dropWhile_newline_head [of cs] show ?thesis
      by (auto simp: no_blank_line_Cons re_sub_newlines_Nil_iff hd_re_sub_newlines)
  next
    case False
    with 3 have ih: "no_blank_line (re_sub_newlines (d # cs))" by simp
    have eq: "re_sub_newlines (c # d # cs) = c # re_sub_newlines (d # cs)"
      using False by auto
    have "re_sub_newlines (d # cs) \<noteq> []" by (simp add: re_sub_newlines_Nil_iff)
    moreover have "hd (re_sub_newlines (d # cs)) = d" by (simp add: hd_re_sub_newlines)
    ultimately show ?thesis
      unfolding eq no_blank_line_Cons using False ih by auto
  qed
qed simp_all

lemma re_sub_newlines_fixed: "no_blank_line s \<Longrightarrow> re_sub_newlines s = s"
  by (induction s rule: re_sub_newlines.induct) auto

lemma collapse_skip_run:
  "collapse_newline_runs (newline # cs) =
   collapse_newline_runs (newline # dropWhile (\<lambda>x. x = newline) cs)"
  by (induction cs) auto

lemma collapse_keep_last:
  "r = [] \<or> hd r \<noteq> newline \<Longrightarrow> collapse_newline_runs (newline # r) = newline # collapse_newline_runs r"
  by (cases r) auto

lemma re_sub_is_collapse: "re_sub_newlines s = collapse_newline_runs s"
proof (induction s rule: re_sub_newlines.induct)
  case (3 c d cs)
  show ?case
  proof (cases "c = newline \<and> d = newline")
    case True
    with 3 have ih: "re_sub_newlines (dropWhile (\<lambda>x. x = newline) cs)
       = collapse_newline_runs (dropWhile (\<lambda>x. x = newline) cs)" by simp
    have "collapse_newline_runs (c # d # cs) = collapse_newline_runs (newline # cs)"
      using True by simp
    also have "\<dots> = newline # collapse_newline_runs (dropWhile (\<lambda>x. x = newline) cs)"
      using collapse_skip_run [of cs] collapse_keep_last [OF dropWhile_newline_head [of cs]] by simp
    finally show ?thesis using True ih by simp
  next
    case False
    with 3 have ih: "re_sub_newlines (d # cs) = collapse_newline_runs (d # cs)" by simp
    have "re_sub_newlines (c # d # cs) = c # re_sub_newlines (d # cs)"
      using False by auto
    moreover have "collapse_newline_runs (c # d # cs) = c # collapse_newline_runs (d # cs)"
      using False by auto
    ultimately show ?thesis using ih by simp
  qed
qed simp_all

text \<open>
  C9. After the substitution no two newlines stand in a row, a second substitution
  changes nothing, and the substitution is what the cell's comment says: every run of
  newlines replaced with a single one.
\<close>

theorem newline_normalisation:
  "no_blank_line (re_sub_newlines s)
   \<and> re_sub_newlines (re_sub_newlines s) = re_sub_newlines s
   \<and> re_sub_newlines s = collapse_newline_runs s"
  using no_blank_line_re_sub [of s] re_sub_newlines_fixed [of "re_sub_newlines s"]
    re_sub_is_collapse [of s]
  by simp

theorem newline_normalisation_witness:
  "re_sub_newlines [CHR ''a'', newline, newline, newline, CHR ''b'', newline, CHR ''c'']
     = [CHR ''a'', newline, CHR ''b'', newline, CHR ''c'']
   \<and> no_blank_line (re_sub_newlines [CHR ''a'', newline, newline, newline, CHR ''b'', newline, CHR ''c''])
   \<and> re_sub_newlines [CHR ''a'', newline, CHR ''b'', newline, CHR ''c'']
     = [CHR ''a'', newline, CHR ''b'', newline, CHR ''c'']"
  using newline_normalisation [of "[CHR ''a'', newline, newline, newline, CHR ''b'', newline, CHR ''c'']"]
  by (simp add: newline_def)

section \<open>Guarded calls of the RunPod notebook\<close>

lemma print_chunks_eq: "print_chunks chunks nb = nb\<lparr>stdout := stdout nb @ concat chunks\<rparr>"
  unfolding print_chunks_def
  by (induction chunks arbitrary: nb) (simp_all add: py_write_def)

text \<open>
  C4, as amended. In each guarded call of the RunPod notebook (invoke, stream, ainvoke,
  astream and the two runs of the chain), when the call raises an instance of
  \<^verbatim>\<open>Exception\<close> the cell prints one diagnostic line holding the exception's text
  after what was already printed, lets no exception out, and has called the client once:
  there is no retry.
\<close>

theorem guarded_calls_catch_and_print:
  assumes "isinstance_Exception e"
  shows
  "(invoke llm runpod_prompt = Inl e \<longrightarrow>
      sync_invoke_cell llm nb =
        (nb\<lparr>stdout := stdout nb @ ''Error invoking LLM: '' @ str_of e @
             ''. Ensure endpoint ID/API key are correct and endpoint is active/compatible.'' @ [newline],
            llm_calls := Suc (llm_calls nb)\<rparr>, None))
   \<and> (stream llm runpod_prompt = (chunks, Some e) \<longrightarrow>
      sync_stream_cell llm nb =
        (nb\<lparr>stdout := stdout nb @ [newline] @ ''--- Sync Stream Response ---'' @ [newline] @
             concat chunks @ [newline] @ ''Error streaming LLM: '' @ str_of e @
             ''. Ensure endpoint handler supports streaming output format.'' @ [newline],
            llm_calls := Suc (llm_calls nb)\<rparr>, None))
   \<and> (ainvoke llm runpod_prompt = Inl e \<longrightarrow>
      async_invoke_cell llm nb =
        (nb\<lparr>stdout := stdout nb @ ''Error invoking LLM asynchronously: '' @ str_of e @ ''.'' @ [newline],
            llm_calls := Suc (llm_calls nb)\<rparr>, None))
   \<and> (astream llm runpod_prompt = (chunks, Some e) \<longrightarrow>
      async_stream_cell llm nb =
        (nb\<lparr>stdout := stdout nb @ [newline] @ ''--- Async Stream Response ---'' @ [newline] @
             concat chunks @ [newline] @ ''Error streaming LLM asynchronously: '' @ str_of e @
             ''. Ensure endpoint handler supports streaming output format.'' @ [newline],
            llm_calls := Suc (llm_calls nb)\<rparr>, None))
   \<and> (invoke llm ''Tell me a joke about bears'' = Inl e \<longrightarrow>
      sync_chain_try llm nb =
        (nb\<lparr>stdout := stdout nb @ ''Error running chain: '' @ str_of e @ [newline],
            llm_calls := Suc (llm_calls nb)\<rparr>, None))
   \<and> (ainvoke llm ''Tell me a joke about robots'' = Inl e \<longrightarrow>
      async_chain_try llm nb =
        (nb\<lparr>stdout := stdout nb @ ''Error running async chain: '' @ str_of e @ [newline],
            llm_calls := Suc (llm_calls nb)\<rparr>, None))"
proof (intro conjI impI)
  assume "invoke llm runpod_prompt = Inl e"
  with assms show "sync_invoke_cell llm nb =
        (nb\<lparr>stdout := stdout nb @ ''Error invoking LLM: '' @ str_of e @
             ''. Ensure endpoint ID/API key are correct and endpoint is active/compatible.'' @ [newline],
            llm_calls := Suc (llm_calls nb)\<rparr>, None)"
    by (simp add: sync_invoke_cell_def except_Exception_def invoke_diagnostic_def py_print_def
        py_write_def called_def)
next
  assume "stream llm runpod_prompt = (chunks, Some e)"
  with assms show "sync_stream_cell llm nb =
        (nb\<lparr>stdout := stdout nb @ [newline] @ ''--- Sync Stream Response ---'' @ [newline] @
             concat chunks @ [newline] @ ''Error streaming LLM: '' @ str_of e @
             ''. Ensure endpoint handler supports streaming output format.'' @ [newline],
            llm_calls := Suc (llm_calls nb)\<rparr>, None)"
    by (simp add: sync_stream_cell_def except_Exception_def stream_diagnostic_def py_print_def
        py_write_def called_def print_chunks_eq)
next
  assume "ainvoke llm runpod_prompt = Inl e"
  with assms show "async_invoke_cell llm nb =
        (nb\<lparr>stdout := stdout nb @ ''Error invoking LLM asynchronously: '' @ str_of e @ ''.'' @ [newline],
            llm_calls := Suc (llm_calls nb)\<rparr>, None)"
    by (simp add: async_invoke_cell_def except_Exception_def ainvoke_diagnostic_def py_print_def
        py_write_def called_def)
next
  assume "astream llm runpod_prompt = (chunks, Some e)"
  with assms show "async_stream_cell llm nb =
        (nb\<lparr>stdout := stdout nb @ [newline] @ ''--- Async Stream Response ---'' @ [newline] @
             concat chunks @ [newline] @ ''Error streaming LLM asynchronously: '' @ str_of e @
             ''. Ensure endpoint handler supports streaming output format.'' @ [newline],
            llm_calls := Suc (llm_calls nb)\<rparr>, None)"
    by (simp add: async_stream_cell_def except_Exception_def astream_diagnostic_def py_print_def
        py_write_def called_def print_chunks_eq)
next
  assume "invoke llm ''Tell me a joke about bears'' = Inl e"
  with assms show "sync_chain_try llm nb =
        (nb\<lparr>stdout := stdout nb @ ''Error running chain: '' @ str_of e @ [newline],
            llm_calls := Suc (llm_calls nb)\<rparr>, None)"
    by (simp add: sync_chain_try_def chain_invoke_def prompt_template_def except_Exception_def
        chain_diagnostic_def py_print_def py_write_def called_def)
next
  assume "ainvoke llm ''Tell me a joke about robots'' = Inl e"
  with assms show "async_chain_try llm nb =
        (nb\<lparr>stdout := stdout nb @ ''Error running async chain: '' @ str_of e @ [newline],
            llm_calls := Suc (llm_calls nb)\<rparr>, None)"
    by (simp add: async_chain_try_def chain_ainvoke_def prompt_template_def except_Exception_def
        async_chain_diagnostic_def py_print_def py_write_def called_def)
qed

theorem guarded_calls_catch_and_print_witness:
  "isinstance_Exception (PyExc TimeoutError ''timed out'')
   \<and> invoke (raising_llm (PyExc TimeoutError ''timed out'')) runpod_prompt = Inl (PyExc TimeoutError ''timed out'')
   \<and> sync_invoke_cell (raising_llm (PyExc TimeoutError ''timed out'')) fresh_notebook =
        (\<lparr>stdout = ''Error invoking LLM: timed out. Ensure endpoint ID/API key are correct and endpoint is active/compatible.'' @ [newline],
          llm_calls = 1\<rparr>, None)
   \<and> stream (raising_llm (PyExc TimeoutError ''timed out'')) runpod_prompt = ([''Moon''], Some (PyExc TimeoutError ''timed out''))
   \<and> sync_stream_cell (raising_llm (PyExc TimeoutError ''timed out'')) fresh_notebook =
        (\<lparr>stdout = [newline] @ ''--- Sync Stream Response ---'' @ [newline] @ ''Moon'' @ [newline] @
            ''Error streaming LLM: timed out. Ensure endpoint handler supports streaming output format.'' @ [newline],
          llm_calls = 1\<rparr>, None)"
proof -
  have h: "isinstance_Exception (PyExc TimeoutError ''timed out'')"
    by (simp add: isinstance_Exception_def)
  from guarded_calls_catch_and_print [OF h, of "raising_llm (PyExc TimeoutError ''timed out'')"
      fresh_notebook "[''Moon'']"] h
  show ?thesis
    by (simp add: raising_llm_def fresh_notebook_def)
qed

text \<open>
  C4 as stated fails for an exception that is not an instance of \<^verbatim>\<open>Exception\<close>: a
  \<^verbatim>\<open>KeyboardInterrupt\<close> raised by the call leaves the cell, and nothing is printed.
\<close>

theorem keyboard_interrupt_leaves_cell:
  "invoke (raising_llm (PyExc KeyboardInterrupt [])) runpod_prompt = Inl (PyExc KeyboardInterrupt [])
   \<and> sync_invoke_cell (raising_llm (PyExc KeyboardInterrupt [])) fresh_notebook =
        (\<lparr>stdout = [], llm_calls = 1\<rparr>, Some (PyExc KeyboardInterrupt []))"
  by (simp add: raising_llm_def fresh_notebook_def sync_invoke_cell_def except_Exception_def
      isinstance_Exception_def called_def)

end
